theory Spec2Isabelle
  imports Main "HOL-Library.Word" "HOL-Library.AList"
begin

section \<open>Paths: the parts of Go's \<open>strings\<close>, \<open>path\<close> and \<open>path/filepath\<close> the downloader calls\<close>

text \<open>
  The downloader runs on a Unix host: the path separator is \<open>/\<close>, there are no volume
  names. \<open>filepath.Clean\<close> is the lexical normalisation of the Go library: empty and
  \<open>.\<close> elements are dropped, an inner \<open>..\<close> removes the element before it, a
  \<open>..\<close> at the root is dropped, and the empty result is \<open>.\<close>.
\<close>

definition Separator :: char where
  "Separator = CHR ''/''"

fun strings_Split :: "char \<Rightarrow> string \<Rightarrow> string list" where
  "strings_Split c [] = [[]]"
| "strings_Split c (x # xs) =
     (if x = c then [] # strings_Split c xs
      else (case strings_Split c xs of
              [] \<Rightarrow> [[x]]
            | y # ys \<Rightarrow> (x # y) # ys))"

fun strings_Join :: "string list \<Rightarrow> string \<Rightarrow> string" where
  "strings_Join [] sep = []"
| "strings_Join [e] sep = e"
| "strings_Join (e # es) sep = e @ sep @ strings_Join es sep"

definition strings_ReplaceAll :: "string \<Rightarrow> char \<Rightarrow> char \<Rightarrow> string" where
  "strings_ReplaceAll s old new = map (\<lambda>c. if c = old then new else c) s"

definition rooted :: "string \<Rightarrow> bool" where
  "rooted p = (case p of [] \<Rightarrow> False | c # _ \<Rightarrow> c = Separator)"

fun clean_step :: "bool \<Rightarrow> string list \<Rightarrow> string \<Rightarrow> string list" where
  "clean_step r out e =
     (if e = [] \<or> e = ''.'' then out
      else if e = ''..'' then
        (case out of
           [] \<Rightarrow> if r then [] else [e]
         | t # ts \<Rightarrow> if t = ''..'' then e # out else ts)
      else e # out)"

definition clean_elems :: "string \<Rightarrow> string list" where
  "clean_elems p = rev (foldl (clean_step (rooted p)) [] (strings_Split Separator p))"

definition render :: "bool \<Rightarrow> string list \<Rightarrow> string" where
  "render r es =
     (let s = (if r then [Separator] else []) @ strings_Join es [Separator]
      in if s = [] then ''.'' else s)"

definition Clean :: "string \<Rightarrow> string" where
  "Clean p = render (rooted p) (clean_elems p)"

definition filepath_Join :: "string list \<Rightarrow> string" where
  "filepath_Join elem =
     (case dropWhile (\<lambda>e. e = []) elem of
        [] \<Rightarrow> []
      | es \<Rightarrow> Clean (strings_Join es [Separator]))"

text \<open>\<open>filepath.Dir\<close> and \<open>path.Dir\<close>: everything up to the last separator, cleaned.\<close>

definition filepath_Dir :: "string \<Rightarrow> string" where
  "filepath_Dir p = Clean (rev (dropWhile (\<lambda>c. c \<noteq> Separator) (rev p)))"

fun strip_common :: "string list \<Rightarrow> string list \<Rightarrow> string list \<times> string list" where
  "strip_common (b # bs) (t # ts) = (if b = t then strip_common bs ts else (b # bs, t # ts))"
| "strip_common bs ts = (bs, ts)"

definition elems :: "string \<Rightarrow> string list" where
  "elems p = filter (\<lambda>e. e \<noteq> []) (strings_Split Separator p)"

text \<open>\<open>filepath.Rel\<close>; \<open>None\<close> is its error.\<close>

definition filepath_Rel :: "string \<Rightarrow> string \<Rightarrow> string option" where
  "filepath_Rel basepath targpath =
     (let base = Clean basepath; targ = Clean targpath in
      if targ = base then Some ''.''
      else
        let base' = (if base = ''.'' then [] else base) in
        if rooted base' \<noteq> rooted targ then None
        else
          (case strip_common (elems base') (elems targ) of
             ([], ts) \<Rightarrow> Some (strings_Join ts [Separator])
           | (b # bs, ts) \<Rightarrow>
               if b = ''..'' then None
               else Some (strings_Join (map (\<lambda>_. ''..'') (b # bs) @ ts) [Separator])))"

text \<open>A cleaned path and the directories above it, outermost first.\<close>

fun inits :: "'a list \<Rightarrow> 'a list list" where
  "inits [] = [[]]"
| "inits (x # xs) = [] # map ((#) x) (inits xs)"

definition path_prefixes :: "string \<Rightarrow> string list" where
  "path_prefixes p = map (render (rooted p)) (inits (clean_elems p))"

definition under :: "string \<Rightarrow> string \<Rightarrow> bool" where
  "under d k = (k \<noteq> d \<and> d \<in> set (path_prefixes k))"


section \<open>The host: file system, standard output, and a trace of calls\<close>

text \<open>
  The file system is a table from cleaned paths to nodes. A regular file is a name for an
  inode, and the bytes live with the inode: an open file keeps writing to its inode after
  another goroutine has renamed or removed the name. Symbolic links are followed in the
  last element of a path (at most \<open>maxSymlinks\<close> times); the elements before the last are
  taken lexically, so a symbolic link to a directory is not a directory here.

  Every call to the operating system or to the HTTP client is appended to \<open>trace\<close>.
  The trace is not program state: the program never reads it.
\<close>

datatype node = Dir | Link string | Reg nat

datatype errno = ENOENT | EEXIST | ENOTDIR | EISDIR | ENOTEMPTY | EINVAL | ELOOP | EBADF | EIO

record request =
  Method :: string
  URL :: string
  ReqHeader :: "(string \<times> string) list"

datatype call =
    MkdirAllCall string
  | StatCall string
  | OpenCall string
  | CreateCall string
  | WriteFileCall string
  | WriteCall nat nat
  | ReadCall nat
  | RenameCall string string
  | SymlinkCall string string
  | RemoveCall string
  | RemoveAllCall string
  | MkdirTempCall string string
  | HttpCall request

datatype message =
    WarnRevisionReference errno
  | WarnPointerButNoBlob string
  | FileAlreadyExists string
  | Downloading string "64 word"
  | Newline
  | WarnSymlinkCopy errno
  | Processed string

record world =
  fs :: "(string \<times> node) list"
  inodes :: "nat \<Rightarrow> string"
  next_ino :: nat
  trace :: "call list"
  stdout :: "message list"

text \<open>The body of an HTTP response, as the successive results of \<open>Body.Read\<close>.\<close>

datatype stream = Chunk string stream | EOF string | ReadError

record response =
  StatusCode :: nat
  Header :: "string \<Rightarrow> string"
  RequestURL :: string
  Body :: stream

text \<open>One element of the tree listing, as \<open>getModelInfo\<close> decodes it.\<close>

record tree_file =
  file_Type :: string
  file_Path :: string
  file_Oid :: string
  file_Size :: "64 word"
  file_LfsInfo :: bool

text \<open>
  What the program does not decide: the environment variables, the remote hub, the
  libraries it calls (\<open>net/url\<close>, \<open>encoding/json\<close>, \<open>regexp\<close>, \<open>fmt.Sscanf\<close>), and the
  calls that fail for a reason outside the table above (permissions, a full disk, a file
  system without symbolic links): \<open>fault\<close> names them, and such a call fails with \<open>EIO\<close>
  and changes nothing.
\<close>

record env =
  Getenv :: "string \<Rightarrow> string"
  TempDir :: string
  temp_suffix :: string
  fault :: "call \<Rightarrow> bool"
  url_parses :: "string \<Rightarrow> bool"
  http_Do :: "request \<Rightarrow> response option"
  json_Decode :: "stream \<Rightarrow> tree_file list option"
  regexp_valid :: "string \<Rightarrow> bool"
  regexp_MatchString :: "string \<Rightarrow> string \<Rightarrow> bool"
  Sscanf_d :: "string \<Rightarrow> 64 word option"

definition maxSymlinks :: nat where
  "maxSymlinks = 40"

definition link_dest :: "string \<Rightarrow> string \<Rightarrow> string" where
  "link_dest p target =
     (if rooted target then Clean target else filepath_Join [filepath_Dir p, target])"

fun follow :: "(string \<times> node) list \<Rightarrow> nat \<Rightarrow> string \<Rightarrow> string option" where
  "follow t 0 p = None"
| "follow t (Suc n) p =
     (case map_of t p of
        Some (Link target) \<Rightarrow> follow t n (link_dest p target)
      | _ \<Rightarrow> Some p)"

definition called :: "call \<Rightarrow> world \<Rightarrow> world" where
  "called c w = w\<lparr>trace := trace w @ [c]\<rparr>"

definition isOK :: "'e + 'a \<Rightarrow> bool" where
  "isOK r = (case r of Inl _ \<Rightarrow> False | Inr _ \<Rightarrow> True)"

definition parent_error :: "(string \<times> node) list \<Rightarrow> string \<Rightarrow> errno option" where
  "parent_error t k =
     (case map_of t (filepath_Dir k) of
        Some Dir \<Rightarrow> None
      | Some _ \<Rightarrow> Some ENOTDIR
      | None \<Rightarrow> Some ENOENT)"

definition os_Stat :: "env \<Rightarrow> string \<Rightarrow> world \<Rightarrow> (errno + node) \<times> world" where
  "os_Stat e p w =
     (let w' = called (StatCall p) w in
      if fault e (StatCall p) then (Inl EIO, w')
      else case follow (fs w) maxSymlinks (Clean p) of
             None \<Rightarrow> (Inl ELOOP, w')
           | Some q \<Rightarrow>
               (case map_of (fs w) q of
                  None \<Rightarrow> (Inl ENOENT, w')
                | Some n \<Rightarrow> (Inr n, w')))"

text \<open>
  \<open>os.MkdirAll\<close> walks down from the outermost directory and creates what is missing;
  the directories made before a failure stay.
\<close>

fun mkdirs :: "(string \<times> node) list \<Rightarrow> string list \<Rightarrow> errno option \<times> (string \<times> node) list" where
  "mkdirs t [] = (None, t)"
| "mkdirs t (q # qs) =
     (case map_of t q of
        None \<Rightarrow> mkdirs (AList.update q Dir t) qs
      | Some Dir \<Rightarrow> mkdirs t qs
      | Some _ \<Rightarrow> (Some ENOTDIR, t))"

definition os_MkdirAll :: "env \<Rightarrow> string \<Rightarrow> world \<Rightarrow> (errno + unit) \<times> world" where
  "os_MkdirAll e p w =
     (let w' = called (MkdirAllCall p) w in
      if fault e (MkdirAllCall p) then (Inl EIO, w')
      else case mkdirs (fs w) (path_prefixes p) of
             (Some err, t) \<Rightarrow> (Inl err, w'\<lparr>fs := t\<rparr>)
           | (None, t) \<Rightarrow> (Inr (), w'\<lparr>fs := t\<rparr>))"

text \<open>Opening with \<open>O_CREATE|O_TRUNC\<close>, as \<open>os.Create\<close> and \<open>os.WriteFile\<close> do.\<close>

definition open_trunc :: "string \<Rightarrow> world \<Rightarrow> (errno + nat) \<times> world" where
  "open_trunc p w =
     (case follow (fs w) maxSymlinks (Clean p) of
        None \<Rightarrow> (Inl ELOOP, w)
      | Some q \<Rightarrow>
          (case map_of (fs w) q of
             Some Dir \<Rightarrow> (Inl EISDIR, w)
           | Some (Link _) \<Rightarrow> (Inl ELOOP, w)
           | Some (Reg i) \<Rightarrow> (Inr i, w\<lparr>inodes := (inodes w)(i := [])\<rparr>)
           | None \<Rightarrow>
               (case parent_error (fs w) q of
                  Some err \<Rightarrow> (Inl err, w)
                | None \<Rightarrow>
                    (Inr (next_ino w),
                     w\<lparr>fs := AList.update q (Reg (next_ino w)) (fs w),
                       inodes := (inodes w)(next_ino w := []),
                       next_ino := Suc (next_ino w)\<rparr>))))"

text \<open>An open file: a directory, or an inode with the offset of the next read or write.\<close>

datatype os_File = DirFile | File nat nat

definition write_at :: "string \<Rightarrow> nat \<Rightarrow> string \<Rightarrow> string" where
  "write_at old off bs =
     take off (old @ replicate (off - length old) (CHR 0x00)) @ bs @ drop (off + length bs) old"

definition os_Create :: "env \<Rightarrow> string \<Rightarrow> world \<Rightarrow> (errno + os_File) \<times> world" where
  "os_Create e p w =
     (let w' = called (CreateCall p) w in
      if fault e (CreateCall p) then (Inl EIO, w')
      else case open_trunc p w' of
             (Inl err, w'') \<Rightarrow> (Inl err, w'')
           | (Inr i, w'') \<Rightarrow> (Inr (File i 0), w''))"

definition file_Write :: "env \<Rightarrow> os_File \<Rightarrow> string \<Rightarrow> world \<Rightarrow> (errno + os_File) \<times> world" where
  "file_Write e f bs w =
     (case f of
        DirFile \<Rightarrow> (Inl EBADF, w)
      | File i off \<Rightarrow>
          (let w' = called (WriteCall i off) w in
           if fault e (WriteCall i off) then (Inl EIO, w')
           else (Inr (File i (off + length bs)),
                 w'\<lparr>inodes := (inodes w')(i := write_at (inodes w' i) off bs)\<rparr>)))"

definition os_WriteFile :: "env \<Rightarrow> string \<Rightarrow> string \<Rightarrow> world \<Rightarrow> (errno + unit) \<times> world" where
  "os_WriteFile e p data w =
     (let w' = called (WriteFileCall p) w in
      if fault e (WriteFileCall p) then (Inl EIO, w')
      else case open_trunc p w' of
             (Inl err, w'') \<Rightarrow> (Inl err, w'')
           | (Inr i, w'') \<Rightarrow> (Inr (), w''\<lparr>inodes := (inodes w'')(i := data)\<rparr>))"

definition os_Open :: "env \<Rightarrow> string \<Rightarrow> world \<Rightarrow> (errno + os_File) \<times> world" where
  "os_Open e p w =
     (let w' = called (OpenCall p) w in
      if fault e (OpenCall p) then (Inl EIO, w')
      else case follow (fs w) maxSymlinks (Clean p) of
             None \<Rightarrow> (Inl ELOOP, w')
           | Some q \<Rightarrow>
               (case map_of (fs w) q of
                  None \<Rightarrow> (Inl ENOENT, w')
                | Some Dir \<Rightarrow> (Inr DirFile, w')
                | Some (Link _) \<Rightarrow> (Inl ELOOP, w')
                | Some (Reg i) \<Rightarrow> (Inr (File i 0), w')))"

text \<open>Reading a file from its offset to its end, as \<open>io.Copy\<close> does with its source.\<close>

definition file_ReadAll :: "env \<Rightarrow> os_File \<Rightarrow> world \<Rightarrow> (errno + string) \<times> world" where
  "file_ReadAll e f w =
     (case f of
        DirFile \<Rightarrow> (Inl EISDIR, w)
      | File i off \<Rightarrow>
          (let w' = called (ReadCall i) w in
           if fault e (ReadCall i) then (Inl EIO, w')
           else (Inr (drop off (inodes w i)), w')))"

definition os_Symlink :: "env \<Rightarrow> string \<Rightarrow> string \<Rightarrow> world \<Rightarrow> (errno + unit) \<times> world" where
  "os_Symlink e target linkname w =
     (let w' = called (SymlinkCall target linkname) w; k = Clean linkname in
      if fault e (SymlinkCall target linkname) then (Inl EIO, w')
      else if target = [] then (Inl ENOENT, w')
      else if map_of (fs w) k \<noteq> None then (Inl EEXIST, w')
      else case parent_error (fs w) k of
             Some err \<Rightarrow> (Inl err, w')
           | None \<Rightarrow> (Inr (), w'\<lparr>fs := AList.update k (Link target) (fs w)\<rparr>))"

definition has_children :: "(string \<times> node) list \<Rightarrow> string \<Rightarrow> bool" where
  "has_children t d = list_ex (\<lambda>kn. under d (fst kn)) t"

definition os_Remove :: "env \<Rightarrow> string \<Rightarrow> world \<Rightarrow> (errno + unit) \<times> world" where
  "os_Remove e p w =
     (let w' = called (RemoveCall p) w; k = Clean p in
      if fault e (RemoveCall p) then (Inl EIO, w')
      else case map_of (fs w) k of
             None \<Rightarrow> (Inl ENOENT, w')
           | Some Dir \<Rightarrow>
               if has_children (fs w) k then (Inl ENOTEMPTY, w')
               else (Inr (), w'\<lparr>fs := AList.delete k (fs w)\<rparr>)
           | Some _ \<Rightarrow> (Inr (), w'\<lparr>fs := AList.delete k (fs w)\<rparr>))"

definition os_RemoveAll :: "env \<Rightarrow> string \<Rightarrow> world \<Rightarrow> (errno + unit) \<times> world" where
  "os_RemoveAll e p w =
     (let w' = called (RemoveAllCall p) w; k = Clean p in
      if fault e (RemoveAllCall p) then (Inl EIO, w')
      else (Inr (), w'\<lparr>fs := filter (\<lambda>kn. fst kn \<noteq> k \<and> \<not> under k (fst kn)) (fs w)\<rparr>))"

text \<open>
  \<open>os.Rename\<close> moves a name, and with a directory everything under it. It does not follow
  a symbolic link in the last element of either path.
\<close>

definition move_key :: "string \<Rightarrow> string \<Rightarrow> string \<Rightarrow> string" where
  "move_key s d k =
     (if k = s then d
      else if under s k then
        render (rooted d) (clean_elems d @ drop (length (clean_elems s)) (clean_elems k))
      else k)"

definition os_Rename :: "env \<Rightarrow> string \<Rightarrow> string \<Rightarrow> world \<Rightarrow> (errno + unit) \<times> world" where
  "os_Rename e oldpath newpath w =
     (let w' = called (RenameCall oldpath newpath) w; s = Clean oldpath; d = Clean newpath in
      if fault e (RenameCall oldpath newpath) then (Inl EIO, w')
      else case map_of (fs w) s of
             None \<Rightarrow> (Inl ENOENT, w')
           | Some n \<Rightarrow>
               (case parent_error (fs w) d of
                  Some err \<Rightarrow> (Inl err, w')
                | None \<Rightarrow>
                    if s = d then (Inr (), w')
                    else if n = Dir then
                      (if under s d then (Inl EINVAL, w')
                       else case map_of (fs w) d of
                              None \<Rightarrow> (Inr (), w'\<lparr>fs := map (\<lambda>kn. (move_key s d (fst kn), snd kn)) (fs w)\<rparr>)
                            | Some Dir \<Rightarrow>
                                if has_children (fs w) d then (Inl ENOTEMPTY, w')
                                else (Inr (), w'\<lparr>fs := map (\<lambda>kn. (move_key s d (fst kn), snd kn))
                                                         (AList.delete d (fs w))\<rparr>)
                            | Some _ \<Rightarrow> (Inl ENOTDIR, w'))
                    else
                      (case map_of (fs w) d of
                         Some Dir \<Rightarrow> (Inl EISDIR, w')
                       | _ \<Rightarrow> (Inr (), w'\<lparr>fs := AList.update d n (AList.delete s (fs w))\<rparr>))))"

text \<open>
  \<open>os.MkdirTemp\<close> with a pattern that has no \<open>*\<close>: a new directory whose name is the
  pattern and a random suffix, in the default temporary directory when \<open>dir\<close> is empty.
\<close>

definition os_MkdirTemp :: "env \<Rightarrow> string \<Rightarrow> string \<Rightarrow> world \<Rightarrow> (errno + string) \<times> world" where
  "os_MkdirTemp e dir pattern w =
     (let w' = called (MkdirTempCall dir pattern) w;
          name = filepath_Join [if dir = [] then TempDir e else dir, pattern @ temp_suffix e] in
      if fault e (MkdirTempCall dir pattern) then (Inl EIO, w')
      else if map_of (fs w) name \<noteq> None then (Inl EEXIST, w')
      else case parent_error (fs w) name of
             Some err \<Rightarrow> (Inl err, w')
           | None \<Rightarrow> (Inr name, w'\<lparr>fs := AList.update name Dir (fs w)\<rparr>))"

definition client_Do :: "env \<Rightarrow> request \<Rightarrow> world \<Rightarrow> response option \<times> world" where
  "client_Do e req w = (http_Do e req, called (HttpCall req) w)"

definition Printf :: "message \<Rightarrow> world \<Rightarrow> unit \<times> world" where
  "Printf m w = ((), w\<lparr>stdout := stdout w @ [m]\<rparr>)"


section \<open>Goroutines as resumptions\<close>

text \<open>
  What a goroutine does is a sequence of calls, each of them atomic: a computation is
  either finished with its result, or one call away from the rest of the computation.
  \<open>run\<close> is a goroutine running alone; the scheduler of \<open>Download\<close> below interleaves
  several of them call by call.
\<close>

datatype 'a prog = Done 'a | Step "world \<Rightarrow> 'a prog \<times> world"

primrec bind :: "'a prog \<Rightarrow> ('a \<Rightarrow> 'b prog) \<Rightarrow> 'b prog" where
  "bind (Done x) k = k x"
| "bind (Step f) k = Step (\<lambda>w. map_prod (\<lambda>p. bind p k) id (f w))"

primrec run :: "'a prog \<Rightarrow> world \<Rightarrow> 'a \<times> world" where
  "run (Done x) w = (x, w)"
| "run (Step f) w = (case map_prod run id (f w) of (r, w') \<Rightarrow> r w')"

definition act :: "(world \<Rightarrow> 'a \<times> world) \<Rightarrow> 'a prog" where
  "act f = Step (\<lambda>w. case f w of (x, w') \<Rightarrow> (Done x, w'))"


section \<open>The downloader\<close>

definition HF_API_URL :: string where
  "HF_API_URL = ''https://huggingface.co/api''"

definition HF_TOKEN_ENV :: string where
  "HF_TOKEN_ENV = ''HF_TOKEN''"

text \<open>
  The errors of the program. It has no error types of its own: each constructor is one
  \<open>fmt.Errorf\<close> of the source, and carries the error it wraps.
\<close>

datatype error =
    CouldNotGetModelInfo error
  | CouldNotGetHomeDirectory
  | CouldNotCreateDirectoryAt string errno
  | CouldNotCreateSnapshotDirectory errno
  | ErrorProcessing string error
  | CouldNotCreateDirectory errno
  | ErrorGettingMetadata error
  | ErrorDownloading error
  | ErrorRenamingTempFile errno
  | ErrorCopying errno
  | ErrorCreatingRequest
  | ErrorMakingAPIRequest
  | APIReturnedStatusCode nat string
  | ErrorDecodingAPIResponse
  | ErrorCreatingHEADRequest
  | ErrorMakingHEADRequest
  | HEADReturnedStatusCode nat
  | CouldNotCreateFile errno
  | ErrorMakingRequest
  | BadStatus nat
  | ErrorReadingResponse
  | ErrorWritingToFile errno
  | DownloadSizeMismatch "64 word" "64 word"

text \<open>A call of a Go function returns, or panics.\<close>

datatype 'a outcome = Panics | Returns 'a

text \<open>The \<open>client\<close> field of the source is the \<open>http_Do\<close> of the environment.\<close>

record Downloader =
  customPath :: string
  ignorePatterns :: "string list"

record sibling =
  RID :: string
  sib_Size :: "64 word"
  Blob :: string
  LFS :: bool

record ModelInfo =
  Siblings :: "sibling list"

record HfFileMetadata =
  CommitHash :: string
  Etag :: string
  Location :: string
  Size :: "64 word"

definition NewDownloader :: Downloader where
  "NewDownloader = \<lparr>customPath = [], ignorePatterns = [CHR 0x5C # ''.md$'', CHR 0x5C # ''.txt$'']\<rparr>"

definition SetCustomPath :: "Downloader \<Rightarrow> string \<Rightarrow> Downloader" where
  "SetCustomPath d path = d\<lparr>customPath := path\<rparr>"

definition SetIgnorePatterns :: "Downloader \<Rightarrow> string list \<Rightarrow> Downloader" where
  "SetIgnorePatterns d patterns = d\<lparr>ignorePatterns := patterns\<rparr>"

subsection \<open>Utility functions\<close>

definition strings_TrimPrefix :: "string \<Rightarrow> string \<Rightarrow> string" where
  "strings_TrimPrefix s pre = (if take (length pre) s = pre then drop (length pre) s else s)"

definition strings_Trim :: "string \<Rightarrow> char \<Rightarrow> string" where
  "strings_Trim s c = rev (dropWhile (\<lambda>x. x = c) (rev (dropWhile (\<lambda>x. x = c) s)))"

definition normalizeETag :: "string \<Rightarrow> string" where
  "normalizeETag etag =
     (if etag = [] then []
      else strings_Trim (strings_TrimPrefix etag ''W/'') (CHR 0x22))"

definition parseInt64 :: "env \<Rightarrow> string \<Rightarrow> 64 word" where
  "parseInt64 e s =
     (if s \<noteq> [] then (case Sscanf_d e s of Some n \<Rightarrow> n | None \<Rightarrow> 0) else 0)"

text \<open>
  \<open>isSymlinkSupported\<close> works in a temporary directory of its own and removes it before
  it returns, so it is one step for the other goroutines.
\<close>

definition isSymlinkSupported :: "env \<Rightarrow> world \<Rightarrow> bool \<times> world" where
  "isSymlinkSupported e w =
     (case os_MkdirTemp e [] ''symlink-test'' w of
        (Inl _, w1) \<Rightarrow> (False, w1)
      | (Inr tempDir, w1) \<Rightarrow>
          (let testFile = filepath_Join [tempDir, ''test-file''] in
           case os_WriteFile e testFile ''test'' w1 of
             (Inl _, w2) \<Rightarrow> (False, snd (os_RemoveAll e tempDir w2))
           | (Inr _, w2) \<Rightarrow>
               (let testLink = filepath_Join [tempDir, ''test-link''] in
                case os_Symlink e testFile testLink w2 of
                  (r, w3) \<Rightarrow> (isOK r, snd (os_RemoveAll e tempDir w3)))))"

definition copyFile :: "env \<Rightarrow> string \<Rightarrow> string \<Rightarrow> (errno + unit) prog" where
  "copyFile e src dst =
     bind (act (os_Open e src)) (\<lambda>r.
       case r of
         Inl err \<Rightarrow> Done (Inl err)
       | Inr source \<Rightarrow>
           bind (act (os_Create e dst)) (\<lambda>r.
             case r of
               Inl err \<Rightarrow> Done (Inl err)
             | Inr destination \<Rightarrow>
                 bind (act (file_ReadAll e source)) (\<lambda>r.
                   case r of
                     Inl err \<Rightarrow> Done (Inl err)
                   | Inr bs \<Rightarrow>
                       bind (act (file_Write e destination bs)) (\<lambda>r.
                         case r of
                           Inl err \<Rightarrow> Done (Inl err)
                         | Inr _ \<Rightarrow> Done (Inr ())))))"

definition repoFolderName :: "string \<Rightarrow> string \<Rightarrow> string" where
  "repoFolderName repoID repoType =
     strings_Join ([repoType @ ''s''] @ strings_Split Separator repoID) ''--''"

subsection \<open>Helper functions\<close>

definition authorization :: "env \<Rightarrow> (string \<times> string) list" where
  "authorization e =
     (let token = Getenv e HF_TOKEN_ENV
      in if token \<noteq> [] then [(''Authorization'', ''Bearer '' @ token)] else [])"

fun io_ReadAll :: "stream \<Rightarrow> string" where
  "io_ReadAll (Chunk bs rest) = bs @ io_ReadAll rest"
| "io_ReadAll (EOF bs) = bs"
| "io_ReadAll ReadError = []"

definition to_sibling :: "tree_file \<Rightarrow> sibling" where
  "to_sibling f = \<lparr>RID = file_Path f, sib_Size = file_Size f, Blob = file_Oid f, LFS = file_LfsInfo f\<rparr>"

definition getModelInfo ::
  "env \<Rightarrow> string \<Rightarrow> string \<Rightarrow> world \<Rightarrow> (error + ModelInfo \<times> string) \<times> world" where
  "getModelInfo e modelRepo revision w =
     (let url = HF_API_URL @ ''/models/'' @ modelRepo @ ''/tree/'' @ revision in
      if \<not> url_parses e url then (Inl ErrorCreatingRequest, w)
      else
        let req = \<lparr>Method = ''GET'', URL = url,
                   ReqHeader = authorization e @ [(''User-Agent'', ''huggingface-go/0.1'')]\<rparr>
        in case client_Do e req w of
             (None, w') \<Rightarrow> (Inl ErrorMakingAPIRequest, w')
           | (Some resp, w') \<Rightarrow>
               if StatusCode resp \<noteq> 200
               then (Inl (APIReturnedStatusCode (StatusCode resp) (io_ReadAll (Body resp))), w')
               else
                 (case json_Decode e (Body resp) of
                    None \<Rightarrow> (Inl ErrorDecodingAPIResponse, w')
                  | Some files \<Rightarrow>
                      (let modelInfo =
                             \<lparr>Siblings = map to_sibling (filter (\<lambda>f. file_Type f = ''file'') files)\<rparr>;
                           commitHash = Header resp ''X-Repo-Commit'';
                           commitHash = (if commitHash = [] \<and> length files > 0
                                         then file_Oid (hd files) else commitHash);
                           commitHash = (if commitHash = [] then revision else commitHash)
                       in (Inr (modelInfo, commitHash), w'))))"

definition getFileMetadata :: "env \<Rightarrow> string \<Rightarrow> world \<Rightarrow> (error + HfFileMetadata) \<times> world" where
  "getFileMetadata e url w =
     (if \<not> url_parses e url then (Inl ErrorCreatingHEADRequest, w)
      else
        let req = \<lparr>Method = ''HEAD'', URL = url,
                   ReqHeader = authorization e @ [(''Accept-Encoding'', ''identity'')]\<rparr>
        in case client_Do e req w of
             (None, w') \<Rightarrow> (Inl ErrorMakingHEADRequest, w')
           | (Some resp, w') \<Rightarrow>
               if StatusCode resp \<noteq> 200
               then (Inl (HEADReturnedStatusCode (StatusCode resp)), w')
               else
                 (let metadata =
                        \<lparr>CommitHash = Header resp ''X-Repo-Commit'',
                         Etag = normalizeETag (Header resp ''X-Linked-Etag''),
                         Location = RequestURL resp,
                         Size = parseInt64 e (Header resp ''Content-Length'')\<rparr>;
                      metadata = (if Etag metadata = []
                                  then metadata\<lparr>Etag := normalizeETag (Header resp ''ETag'')\<rparr>
                                  else metadata)
                  in (Inr metadata, w')))"

text \<open>
  The loop of \<open>downloadWithProgress\<close>: one \<open>Read\<close> of the body and one \<open>Write\<close> to the
  file in each round. The progress line it prints at most once a second goes by the clock
  and is left out; \<open>downloaded\<close> is an \<open>int64\<close>.
\<close>

fun copyLoop :: "env \<Rightarrow> os_File \<Rightarrow> stream \<Rightarrow> 64 word \<Rightarrow> (error + 64 word) prog" where
  "copyLoop e out (Chunk bs rest) downloaded =
     (if length bs > 0 then
        bind (act (file_Write e out bs)) (\<lambda>r.
          case r of
            Inl err \<Rightarrow> Done (Inl (ErrorWritingToFile err))
          | Inr out' \<Rightarrow> copyLoop e out' rest (downloaded + of_nat (length bs)))
      else copyLoop e out rest downloaded)"
| "copyLoop e out (EOF bs) downloaded =
     (if length bs > 0 then
        bind (act (file_Write e out bs)) (\<lambda>r.
          case r of
            Inl err \<Rightarrow> Done (Inl (ErrorWritingToFile err))
          | Inr out' \<Rightarrow> Done (Inr (downloaded + of_nat (length bs))))
      else Done (Inr downloaded))"
| "copyLoop e out ReadError downloaded = Done (Inl ErrorReadingResponse)"

definition downloadWithProgress :: "env \<Rightarrow> string \<Rightarrow> string \<Rightarrow> 64 word \<Rightarrow> error option prog" where
  "downloadWithProgress e url filepath expectedSize =
     bind (act (os_MkdirAll e (filepath_Dir filepath))) (\<lambda>r.
       case r of
         Inl err \<Rightarrow> Done (Some (CouldNotCreateDirectory err))
       | Inr _ \<Rightarrow>
           bind (act (os_Create e filepath)) (\<lambda>r.
             case r of
               Inl err \<Rightarrow> Done (Some (CouldNotCreateFile err))
             | Inr out \<Rightarrow>
                 if \<not> url_parses e url then Done (Some ErrorCreatingRequest)
                 else
                   bind (act (client_Do e \<lparr>Method = ''GET'', URL = url,
                                           ReqHeader = authorization e\<rparr>)) (\<lambda>r.
                     case r of
                       None \<Rightarrow> Done (Some ErrorMakingRequest)
                     | Some resp \<Rightarrow>
                         if StatusCode resp \<noteq> 200 then Done (Some (BadStatus (StatusCode resp)))
                         else
                           bind (copyLoop e out (Body resp) 0) (\<lambda>r.
                             case r of
                               Inl err \<Rightarrow> Done (Some err)
                             | Inr downloaded \<Rightarrow>
                                 bind (act (Printf Newline)) (\<lambda>_.
                                   if 0 < sint expectedSize \<and> downloaded \<noteq> expectedSize
                                   then Done (Some (DownloadSizeMismatch downloaded expectedSize))
                                   else Done None)))))"

subsection \<open>\<open>downloadFile\<close>\<close>

text \<open>Lines 176 to 193 of the source: the blob is not there, fetch it.\<close>

definition fetchBlob :: "env \<Rightarrow> string \<Rightarrow> string \<Rightarrow> string \<Rightarrow> string \<Rightarrow> error option prog" where
  "fetchBlob e modelRepo revision filename blobPath =
     (let url = ''https://huggingface.co/'' @ modelRepo @ ''/resolve/'' @ revision @ ''/'' @ filename in
      bind (act (getFileMetadata e url)) (\<lambda>r.
        case r of
          Inl err \<Rightarrow> Done (Some (ErrorGettingMetadata err))
        | Inr metadata \<Rightarrow>
            bind (act (Printf (Downloading filename (Size metadata)))) (\<lambda>_.
              let tempPath = blobPath @ ''.incomplete'' in
              bind (downloadWithProgress e url tempPath (Size metadata)) (\<lambda>r.
                case r of
                  Some err \<Rightarrow> Done (Some (ErrorDownloading err))
                | None \<Rightarrow>
                    bind (act (os_Rename e tempPath blobPath)) (\<lambda>r.
                      case r of
                        Inl err \<Rightarrow> Done (Some (ErrorRenamingTempFile err))
                      | Inr _ \<Rightarrow> Done None)))))"

text \<open>Lines 195 to 218 of the source: the pointer in the snapshot, a link or a copy.\<close>

definition linkPointer :: "env \<Rightarrow> string \<Rightarrow> string \<Rightarrow> string \<Rightarrow> error option prog" where
  "linkPointer e filename blobPath pointerPath =
     bind (act (isSymlinkSupported e)) (\<lambda>supported.
       if supported then
         (let relPath = (case filepath_Rel (filepath_Dir pointerPath) blobPath of
                           None \<Rightarrow> blobPath
                         | Some rel \<Rightarrow> rel) in
          bind (act (os_Stat e pointerPath)) (\<lambda>st.
            bind (if isOK st then bind (act (os_Remove e pointerPath)) (\<lambda>_. Done ()) else Done ()) (\<lambda>_.
              bind (act (os_Symlink e relPath pointerPath)) (\<lambda>r.
                case r of
                  Inl err \<Rightarrow>
                    bind (act (Printf (WarnSymlinkCopy err))) (\<lambda>_.
                      bind (copyFile e blobPath pointerPath) (\<lambda>r.
                        case r of
                          Inl err \<Rightarrow> Done (Some (ErrorCopying err))
                        | Inr _ \<Rightarrow> bind (act (Printf (Processed filename))) (\<lambda>_. Done None)))
                | Inr _ \<Rightarrow> bind (act (Printf (Processed filename))) (\<lambda>_. Done None)))))
       else
         bind (copyFile e blobPath pointerPath) (\<lambda>r.
           case r of
             Inl err \<Rightarrow> Done (Some (ErrorCopying err))
           | Inr _ \<Rightarrow> bind (act (Printf (Processed filename))) (\<lambda>_. Done None)))"

definition downloadFile ::
  "env \<Rightarrow> string \<Rightarrow> string \<Rightarrow> string \<Rightarrow> string \<Rightarrow> 64 word \<Rightarrow> string \<Rightarrow> string \<Rightarrow> error option prog" where
  "downloadFile e modelRepo revision filename blobId fsize storageFolder snapshotDir =
     (let relativePath = strings_ReplaceAll filename (CHR ''/'') Separator;
          blobPath = filepath_Join [storageFolder, ''blobs'', blobId];
          pointerPath = filepath_Join [snapshotDir, relativePath] in
      bind (act (os_MkdirAll e (filepath_Dir pointerPath))) (\<lambda>r.
        case r of
          Inl err \<Rightarrow> Done (Some (CouldNotCreateDirectory err))
        | Inr _ \<Rightarrow>
            bind (act (os_Stat e blobPath)) (\<lambda>bst.
              let blobExists = isOK bst in
              bind (act (os_Stat e pointerPath)) (\<lambda>pst.
                if isOK pst \<and> blobExists then
                  bind (act (Printf (FileAlreadyExists filename))) (\<lambda>_. Done None)
                else
                  bind (if isOK pst \<and> \<not> blobExists
                        then act (Printf (WarnPointerButNoBlob filename)) else Done ()) (\<lambda>_.
                    bind (if \<not> blobExists
                          then fetchBlob e modelRepo revision filename blobPath
                          else Done None) (\<lambda>r.
                      case r of
                        Some err \<Rightarrow> Done (Some err)
                      | None \<Rightarrow> linkPointer e filename blobPath pointerPath))))))"

subsection \<open>\<open>Download\<close>\<close>

text \<open>
  The compiled form of a pattern is the pattern itself, for \<open>regexp_MatchString\<close>;
  \<open>regexp.MustCompile\<close> panics on a pattern that is not a regular expression.
\<close>

fun compilePatterns :: "env \<Rightarrow> string list \<Rightarrow> string list outcome" where
  "compilePatterns e [] = Returns []"
| "compilePatterns e (pattern # patterns) =
     (if regexp_valid e pattern then
        (case compilePatterns e patterns of
           Panics \<Rightarrow> Panics
         | Returns rs \<Rightarrow> Returns (pattern # rs))
      else Panics)"

fun shouldDownload :: "env \<Rightarrow> string list \<Rightarrow> string \<Rightarrow> bool" where
  "shouldDownload e [] rid = True"
| "shouldDownload e (pattern # patterns) rid =
     (if regexp_MatchString e pattern rid then False else shouldDownload e patterns rid)"

definition os_UserHomeDir :: "env \<Rightarrow> error + string" where
  "os_UserHomeDir e =
     (if Getenv e ''HOME'' = [] then Inl CouldNotGetHomeDirectory else Inr (Getenv e ''HOME''))"

definition storageLocation :: "env \<Rightarrow> Downloader \<Rightarrow> string \<Rightarrow> error + string" where
  "storageLocation e d modelRepo =
     (if customPath d \<noteq> [] then Inr (customPath d)
      else case os_UserHomeDir e of
             Inl err \<Rightarrow> Inl err
           | Inr homeDir \<Rightarrow>
               Inr (filepath_Join [homeDir, ''.cache'', ''huggingface'', ''hub'',
                                   repoFolderName modelRepo ''model'']))"

fun createDirectories :: "env \<Rightarrow> string list \<Rightarrow> world \<Rightarrow> error option \<times> world" where
  "createDirectories e [] w = (None, w)"
| "createDirectories e (dir # dirs) w =
     (case os_MkdirAll e dir w of
        (Inl err, w') \<Rightarrow> (Some (CouldNotCreateDirectoryAt dir err), w')
      | (Inr _, w') \<Rightarrow> createDirectories e dirs w')"

definition cacheCommitHash :: "env \<Rightarrow> string \<Rightarrow> string \<Rightarrow> string \<Rightarrow> world \<Rightarrow> world" where
  "cacheCommitHash e storageFolder revision commitHash w =
     (if revision \<noteq> commitHash then
        (let refPath = filepath_Join [storageFolder, ''refs'', revision];
             w1 = snd (os_MkdirAll e (filepath_Dir refPath) w)
         in case os_WriteFile e refPath commitHash w1 of
              (Inl err, w2) \<Rightarrow> snd (Printf (WarnRevisionReference err) w2)
            | (Inr _, w2) \<Rightarrow> w2)
      else w)"

text \<open>
  The goroutine of one file. When \<open>downloadFile\<close> has returned, the goroutine sends the
  error, if there is one, to \<open>errorChan\<close> and exits: that is its last step.
\<close>

definition goroutine ::
  "env \<Rightarrow> string \<Rightarrow> string \<Rightarrow> string \<Rightarrow> string \<Rightarrow> sibling \<Rightarrow> error option prog" where
  "goroutine e modelRepo revision storageFolder snapshotDir file =
     bind (downloadFile e modelRepo revision (RID file) (Blob file) (sib_Size file)
             storageFolder snapshotDir) (\<lambda>r.
       case r of
         None \<Rightarrow> Done None
       | Some err \<Rightarrow> Done (Some (ErrorProcessing (RID file) err)))"

datatype task = Running "error option prog" | Exited

definition send :: "error option \<Rightarrow> error list \<Rightarrow> error list" where
  "send r errorChan = (case r of None \<Rightarrow> errorChan | Some err \<Rightarrow> errorChan @ [err])"

definition step_task :: "task \<Rightarrow> error list \<Rightarrow> world \<Rightarrow> task \<times> error list \<times> world" where
  "step_task t errorChan w =
     (case t of
        Exited \<Rightarrow> (Exited, errorChan, w)
      | Running (Done r) \<Rightarrow> (Exited, send r errorChan, w)
      | Running (Step f) \<Rightarrow> (case f w of (p, w') \<Rightarrow> (Running p, errorChan, w')))"

fun finish :: "task list \<Rightarrow> error list \<Rightarrow> world \<Rightarrow> error list \<times> world" where
  "finish [] errorChan w = (errorChan, w)"
| "finish (Exited # ts) errorChan w = finish ts errorChan w"
| "finish (Running p # ts) errorChan w =
     (case run p w of (r, w') \<Rightarrow> finish ts (send r errorChan) w')"

text \<open>
  The goroutines between \<open>wg.Add\<close> and \<open>wg.Wait\<close>. A schedule names the goroutine that
  makes the next step; when the schedule is used up, the goroutines still running are
  run to their end one after the other, so that \<open>wg.Wait\<close> returns for every schedule.
  \<open>errorChan\<close> has room for every goroutine: a send never blocks.
\<close>

fun run_sched :: "nat list \<Rightarrow> task list \<Rightarrow> error list \<Rightarrow> world \<Rightarrow> error list \<times> world" where
  "run_sched [] ts errorChan w = finish ts errorChan w"
| "run_sched (i # sched) ts errorChan w =
     (if i < length ts then
        (case step_task (ts ! i) errorChan w of
           (t', errorChan', w') \<Rightarrow> run_sched sched (ts[i := t']) errorChan' w')
      else run_sched sched ts errorChan w)"

definition launch ::
  "env \<Rightarrow> string list \<Rightarrow> string \<Rightarrow> string \<Rightarrow> string \<Rightarrow> string \<Rightarrow> sibling list \<Rightarrow> task list" where
  "launch e ignoreRegexps modelRepo revision storageFolder snapshotDir files =
     map (\<lambda>file. Running (goroutine e modelRepo revision storageFolder snapshotDir file))
       (filter (\<lambda>file. shouldDownload e ignoreRegexps (RID file)) files)"

definition Download ::
  "env \<Rightarrow> Downloader \<Rightarrow> nat list \<Rightarrow> string \<Rightarrow> string \<Rightarrow> world \<Rightarrow> (error + string) outcome \<times> world" where
  "Download e d sched modelRepo revision0 w =
     (let revision = (if revision0 = [] then ''main'' else revision0) in
      case compilePatterns e (ignorePatterns d) of
        Panics \<Rightarrow> (Panics, w)
      | Returns ignoreRegexps \<Rightarrow>
          (case getModelInfo e modelRepo revision w of
             (Inl err, w1) \<Rightarrow> (Returns (Inl (CouldNotGetModelInfo err)), w1)
           | (Inr (modelInfo, commitHash), w1) \<Rightarrow>
               (case storageLocation e d modelRepo of
                  Inl err \<Rightarrow> (Returns (Inl err), w1)
                | Inr storageFolder \<Rightarrow>
                    (case createDirectories e
                            [storageFolder,
                             filepath_Join [storageFolder, ''blobs''],
                             filepath_Join [storageFolder, ''refs''],
                             filepath_Join [storageFolder, ''snapshots'']] w1 of
                       (Some err, w2) \<Rightarrow> (Returns (Inl err), w2)
                     | (None, w2) \<Rightarrow>
                         (let w3 = cacheCommitHash e storageFolder revision commitHash w2;
                              snapshotDir = filepath_Join [storageFolder, ''snapshots'', commitHash]
                          in case os_MkdirAll e snapshotDir w3 of
                               (Inl err, w4) \<Rightarrow>
                                 (Returns (Inl (CouldNotCreateSnapshotDirectory err)), w4)
                             | (Inr _, w4) \<Rightarrow>
                                 (case run_sched sched
                                         (launch e ignoreRegexps modelRepo revision
                                            storageFolder snapshotDir (Siblings modelInfo))
                                         [] w4 of
                                    ([], w5) \<Rightarrow> (Returns (Inr storageFolder), w5)
                                  | (err # _, w5) \<Rightarrow> (Returns (Inl err), w5)))))))"


section \<open>What is observed of a host\<close>

text \<open>The bytes a reader finds at a path, through the symbolic links in its last element.\<close>

definition read_file :: "world \<Rightarrow> string \<Rightarrow> string option" where
  "read_file w p =
     (case follow (fs w) maxSymlinks (Clean p) of
        None \<Rightarrow> None
      | Some q \<Rightarrow>
          (case map_of (fs w) q of
             Some (Reg i) \<Rightarrow> Some (inodes w i)
           | _ \<Rightarrow> None))"

fun is_http :: "call \<Rightarrow> bool" where
  "is_http (HttpCall _) = True"
| "is_http _ = False"

fun is_rename :: "call \<Rightarrow> bool" where
  "is_rename (RenameCall _ _) = True"
| "is_rename _ = False"

text \<open>The bytes of a body that is read to its end; \<open>None\<close> when a read fails.\<close>

fun stream_bytes :: "stream \<Rightarrow> string option" where
  "stream_bytes (Chunk bs rest) = map_option ((@) bs) (stream_bytes rest)"
| "stream_bytes (EOF bs) = Some bs"
| "stream_bytes ReadError = None"


section \<open>Example hosts\<close>

text \<open>
  A hub with one repository \<open>o/m\<close>: the tree listing answers with the commit header
  \<open>commit\<close>, a \<open>HEAD\<close> of any file with the length \<open>content_length\<close>, a \<open>GET\<close> with \<open>body\<close>.
\<close>

definition hub :: "string \<Rightarrow> string \<Rightarrow> stream \<Rightarrow> request \<Rightarrow> response option" where
  "hub commit content_length body req =
     (if URL req = ''https://huggingface.co/api/models/o/m/tree/main'' then
        Some \<lparr>StatusCode = 200,
              Header = (\<lambda>h. if h = ''X-Repo-Commit'' then commit else []),
              RequestURL = URL req, Body = EOF []\<rparr>
      else if Method req = ''HEAD'' then
        Some \<lparr>StatusCode = 200,
              Header = (\<lambda>h. if h = ''Content-Length'' then content_length else []),
              RequestURL = URL req, Body = EOF []\<rparr>
      else
        Some \<lparr>StatusCode = 200, Header = (\<lambda>_. []), RequestURL = URL req, Body = body\<rparr>)"

text \<open>A scanner of unsigned decimal numbers, for \<open>Sscanf_d\<close>.\<close>

definition decimal :: "string \<Rightarrow> 64 word option" where
  "decimal s =
     (if s \<noteq> [] \<and> list_all (\<lambda>c. 48 \<le> (of_char c :: nat) \<and> (of_char c :: nat) \<le> 57) s
      then (let n = foldl (\<lambda>n c. 10 * n + (of_char c - 48)) (0::nat) s
            in if n < 2 ^ 63 then Some (of_nat n) else None)
      else None)"

definition tree_entry :: "string \<Rightarrow> string \<Rightarrow> tree_file" where
  "tree_entry p oid =
     \<lparr>file_Type = ''file'', file_Path = p, file_Oid = oid, file_Size = 4, file_LfsInfo = False\<rparr>"

text \<open>
  A host where no call fails for an outside reason, and a regular expression library that
  knows the pattern \<open>\.md$\<close> and rejects the pattern \<open>(\<close>.
\<close>

definition host :: "tree_file list \<Rightarrow> (request \<Rightarrow> response option) \<Rightarrow> env" where
  "host listing remote =
     \<lparr>Getenv = (\<lambda>_. []), TempDir = ''/t'', temp_suffix = ''1'', fault = (\<lambda>_. False),
      url_parses = (\<lambda>_. True), http_Do = remote, json_Decode = (\<lambda>_. Some listing),
      regexp_valid = (\<lambda>p. p \<noteq> ''(''),
      regexp_MatchString = (\<lambda>p s. p = CHR 0x5C # ''.md$'' \<and> drop (length s - 3) s = ''.md''),
      Sscanf_d = decimal\<rparr>"

definition env0 :: env where
  "env0 = host [tree_entry ''f'' ''h'', tree_entry ''g.md'' ''k'']
            (hub ''c'' ''4'' (Chunk ''da'' (EOF ''ta'')))"

definition world0 :: world where
  "world0 = \<lparr>fs = [(''/'', Dir), (''/t'', Dir)], inodes = (\<lambda>_. []), next_ino = 0,
             trace = [], stdout = []\<rparr>"

definition d0 :: Downloader where
  "d0 = SetCustomPath NewDownloader ''/r''"

text \<open>A hub that sends no commit header, and a listing whose first entry has no \<open>oid\<close>.\<close>

definition env_no_oid :: env where
  "env_no_oid = host [tree_entry ''f'' []] (hub [] ''4'' (EOF ''data''))"


text \<open>A host with no network.\<close>

definition env_offline :: env where
  "env_offline = host [] (\<lambda>_. None)"

text \<open>A repository whose only file is ignored by the default patterns.\<close>

definition env_md :: env where
  "env_md = host [tree_entry ''g.md'' ''k''] (hub ''c'' ''4'' (EOF ''data''))"

text \<open>A cache where an earlier revision \<open>main/...\<close> has left a directory \<open>refs/main\<close>.\<close>

definition world_ref_dir :: world where
  "world_ref_dir = \<lparr>fs = [(''/'', Dir), (''/t'', Dir), (''/r'', Dir), (''/r/refs'', Dir),
                          (''/r/refs/main'', Dir)],
                    inodes = (\<lambda>_. []), next_ino = 0, trace = [], stdout = []\<rparr>"


section \<open>Running a goroutine alone\<close>

lemma bind_Step: "bind (Step f) k = Step (\<lambda>w. case f w of (p, w') \<Rightarrow> (bind p k, w'))"
  by (simp add: map_prod_def)

lemma run_Step: "run (Step f) w = (case f w of (p, w') \<Rightarrow> run p w')"
  by (simp add: map_prod_def split: prod.splits)

declare bind.simps(2) [simp del] run.simps(2) [simp del]

lemma run_act: "run (act f) w = f w"
  by (simp add: act_def run_Step split: prod.splits)

lemma run_bind: "run (bind m k) w = (case run m w of (x, w') \<Rightarrow> run (k x) w')"
proof (induction m arbitrary: w)
  case (Done x)
  show ?case by simp
next
  case (Step f)
  obtain p w' where fw: "f w = (p, w')" by (cases "f w")
  then have "(p, w') \<in> range f" by (metis rangeI)
  then have "run (bind p k) w' = (case run p w' of (x, w'') \<Rightarrow> run (k x) w'')"
    using Step.IH by simp
  then show ?case using fw by (simp add: bind_Step run_Step)
qed

lemma follow_numeral:
  "follow t (numeral k) p =
     (case map_of t p of
        Some (Link target) \<Rightarrow> follow t (pred_numeral k) (link_dest p target)
      | _ \<Rightarrow> Some p)"
  by (simp add: numeral_eq_Suc)

text \<open>The equations that compute a run on a given host.\<close>

lemmas path_defs = Separator_def rooted_def clean_elems_def render_def Clean_def filepath_Join_def
  filepath_Dir_def elems_def filepath_Rel_def path_prefixes_def under_def strings_ReplaceAll_def

lemmas os_defs = maxSymlinks_def link_dest_def called_def isOK_def parent_error_def os_Stat_def
  os_MkdirAll_def open_trunc_def write_at_def os_Create_def file_Write_def os_WriteFile_def
  os_Open_def file_ReadAll_def os_Symlink_def has_children_def os_Remove_def os_RemoveAll_def
  move_key_def os_Rename_def os_MkdirTemp_def client_Do_def Printf_def follow_numeral
  read_file_def

lemmas seq_defs = HF_API_URL_def HF_TOKEN_ENV_def NewDownloader_def SetCustomPath_def
  SetIgnorePatterns_def strings_TrimPrefix_def strings_Trim_def normalizeETag_def parseInt64_def
  isSymlinkSupported_def repoFolderName_def authorization_def to_sibling_def
  getModelInfo_def getFileMetadata_def os_UserHomeDir_def storageLocation_def cacheCommitHash_def
  launch_def send_def Download_def Let_def

lemmas run_defs = run_bind run_act
  arg_cong [where f = "\<lambda>p. run p w", OF copyFile_def]
  arg_cong [where f = "\<lambda>p. run p w", OF downloadWithProgress_def]
  arg_cong [where f = "\<lambda>p. run p w", OF fetchBlob_def]
  arg_cong [where f = "\<lambda>p. run p w", OF linkPointer_def]
  arg_cong [where f = "\<lambda>p. run p w", OF downloadFile_def]
  arg_cong [where f = "\<lambda>p. run p w", OF goroutine_def]
  arg_cong [where f = "\<lambda>p. run p w", OF copyLoop.simps(1)]
  arg_cong [where f = "\<lambda>p. run p w", OF copyLoop.simps(2)]
  arg_cong [where f = "\<lambda>p. run p w", OF copyLoop.simps(3)]
  for w

lemma host_fields:
  "Getenv (host l r) = (\<lambda>_. [])" "TempDir (host l r) = ''/t''" "temp_suffix (host l r) = ''1''"
  "fault (host l r) = (\<lambda>_. False)" "url_parses (host l r) = (\<lambda>_. True)" "http_Do (host l r) = r"
  "json_Decode (host l r) = (\<lambda>_. Some l)" "regexp_valid (host l r) = (\<lambda>p. p \<noteq> ''('')"
  "regexp_MatchString (host l r) =
     (\<lambda>p s. p = CHR 0x5C # ''.md$'' \<and> drop (length s - 3) s = ''.md'')"
  "Sscanf_d (host l r) = decimal"
  by (simp_all add: host_def)

lemmas host_defs = hub_def decimal_def tree_entry_def host_fields env0_def world0_def d0_def
  env_no_oid_def env_offline_def env_md_def world_ref_dir_def

lemmas eval = path_defs os_defs seq_defs run_defs host_defs

declare copyLoop.simps [simp del]


section \<open>The commit identifier\<close>

text \<open>
  C5, as stated, fails: with no commit header and a listing whose first entry has an empty
  \<open>oid\<close>, the claim gives the empty hash of that entry as the commit identifier, and
  \<open>getModelInfo\<close> gives the revision.
\<close>

theorem getModelInfo_commit_counterexample:
  "fst (getModelInfo env_no_oid ''o/m'' ''main'' world0) =
     Inr (\<lparr>Siblings = [\<lparr>RID = ''f'', sib_Size = 4, Blob = [], LFS = False\<rparr>]\<rparr>, ''main'')
   \<and> json_Decode env_no_oid (EOF []) = Some [tree_entry ''f'' []]
   \<and> file_Oid (hd [tree_entry ''f'' []]) \<noteq> ''main''"
  by (simp add: eval cong: let_weak_cong)

text \<open>
  C5, amended: when the listing request is answered with status 200 and a body that
  decodes, the commit identifier is the value of the header \<open>X-Repo-Commit\<close> when that is
  not empty; otherwise the \<open>oid\<close> of the first entry of the listing, whatever its type,
  when the listing is not empty and that \<open>oid\<close> is not empty; otherwise the revision.
\<close>

theorem getModelInfo_commit:
  assumes "url_parses e (HF_API_URL @ ''/models/'' @ modelRepo @ ''/tree/'' @ revision)"
    and "http_Do e \<lparr>Method = ''GET'',
                    URL = HF_API_URL @ ''/models/'' @ modelRepo @ ''/tree/'' @ revision,
                    ReqHeader = authorization e @ [(''User-Agent'', ''huggingface-go/0.1'')]\<rparr>
         = Some resp"
    and "StatusCode resp = 200"
    and "json_Decode e (Body resp) = Some files"
  shows "\<exists>modelInfo commitHash.
           fst (getModelInfo e modelRepo revision w) = Inr (modelInfo, commitHash) \<and>
           commitHash =
             (if Header resp ''X-Repo-Commit'' \<noteq> [] then Header resp ''X-Repo-Commit''
              else if files \<noteq> [] \<and> file_Oid (hd files) \<noteq> [] then file_Oid (hd files)
              else revision)"
  using assms by (simp add: getModelInfo_def client_Do_def Let_def)

theorem getModelInfo_commit_witness:
  "\<exists>modelInfo commitHash.
     fst (getModelInfo env0 ''o/m'' ''main'' world0) = Inr (modelInfo, commitHash) \<and>
     commitHash = ''c''"
  using getModelInfo_commit [of env0 "''o/m''" "''main''"
      "\<lparr>StatusCode = 200, Header = (\<lambda>h. if h = ''X-Repo-Commit'' then ''c'' else []),
        RequestURL = ''https://huggingface.co/api/models/o/m/tree/main'', Body = EOF []\<rparr>"
      "[tree_entry ''f'' ''h'', tree_entry ''g.md'' ''k'']" world0]
  by (simp add: eval cong: let_weak_cong)


section \<open>Ignore patterns that are not regular expressions\<close>

lemma compilePatterns_Panics:
  "pattern \<in> set patterns \<Longrightarrow> \<not> regexp_valid e pattern \<Longrightarrow> compilePatterns e patterns = Panics"
  by (induction patterns) (auto split: outcome.splits)

text \<open>
  C10: \<open>SetIgnorePatterns\<close> stores any list of patterns. When one of them is not a regular
  expression, \<open>Download\<close> panics while it compiles the patterns: it returns no error value,
  and the host is as it was, with no call made to the network or the file system.
\<close>

theorem Download_panics_on_invalid_pattern:
  assumes "pattern \<in> set patterns" and "\<not> regexp_valid e pattern"
  shows "ignorePatterns (SetIgnorePatterns d patterns) = patterns \<and>
         Download e (SetIgnorePatterns d patterns) sched modelRepo revision w = (Panics, w)"
  using compilePatterns_Panics [OF assms]
  by (simp add: Download_def SetIgnorePatterns_def)

theorem Download_panics_on_invalid_pattern_witness:
  "''('' \<in> set [''x'', ''(''] \<and> \<not> regexp_valid env0 ''('' \<and>
   ignorePatterns (SetIgnorePatterns d0 [''x'', ''('']) = [''x'', ''(''] \<and>
   Download env0 (SetIgnorePatterns d0 [''x'', ''('']) [] ''o/m'' ''main'' world0 = (Panics, world0)"
  using Download_panics_on_invalid_pattern
          [of "''(''" "[''x'', ''('']" env0 d0 "[]" "''o/m''" "''main''" world0]
  by (simp add: env0_def host_fields)


section \<open>A first download\<close>







section \<open>Resolution fails\<close>

lemma getModelInfo_fs:
  "fs (snd (getModelInfo e modelRepo revision w)) = fs w \<and>
   inodes (snd (getModelInfo e modelRepo revision w)) = inodes w \<and>
   filter (\<lambda>c. \<not> is_http c) (trace (snd (getModelInfo e modelRepo revision w))) =
     filter (\<lambda>c. \<not> is_http c) (trace w)"
  by (simp add: getModelInfo_def client_Do_def called_def Let_def split: option.splits)

lemma getModelInfo_fails:
  assumes "\<not> url_parses e (HF_API_URL @ ''/models/'' @ modelRepo @ ''/tree/'' @ revision) \<or>
      (case http_Do e \<lparr>Method = ''GET'',
                    URL = HF_API_URL @ ''/models/'' @ modelRepo @ ''/tree/'' @ revision,
                    ReqHeader = authorization e @ [(''User-Agent'', ''huggingface-go/0.1'')]\<rparr> of
         None \<Rightarrow> True
       | Some resp \<Rightarrow> StatusCode resp \<noteq> 200 \<or> json_Decode e (Body resp) = None)"
  shows "\<not> isOK (fst (getModelInfo e modelRepo revision w))"
  using assms by (auto simp: getModelInfo_def client_Do_def Let_def isOK_def split: option.splits)

text \<open>
  C7: when the patterns compile and \<open>getModelInfo\<close> fails, \<open>Download\<close> returns that error,
  wrapped, and has made no call but the HTTP request: the table of the file system and
  the inodes are as they were, so no directory was created, under the storage root or
  anywhere else.
\<close>

theorem Download_resolution_fails:
  assumes "compilePatterns e (ignorePatterns d) \<noteq> Panics"
    and "fst (getModelInfo e modelRepo (if revision = [] then ''main'' else revision) w) = Inl err"
  shows "fst (Download e d sched modelRepo revision w) = Returns (Inl (CouldNotGetModelInfo err)) \<and>
         fs (snd (Download e d sched modelRepo revision w)) = fs w \<and>
         inodes (snd (Download e d sched modelRepo revision w)) = inodes w \<and>
         filter (\<lambda>c. \<not> is_http c) (trace (snd (Download e d sched modelRepo revision w))) =
           filter (\<lambda>c. \<not> is_http c) (trace w)"
proof -
  obtain rs where rs: "compilePatterns e (ignorePatterns d) = Returns rs"
    using assms(1) by (cases "compilePatterns e (ignorePatterns d)") auto
  obtain w' where g: "getModelInfo e modelRepo (if revision = [] then ''main'' else revision) w = (Inl err, w')"
    using assms(2) by (cases "getModelInfo e modelRepo (if revision = [] then ''main'' else revision) w") auto
  have D: "Download e d sched modelRepo revision w = (Returns (Inl (CouldNotGetModelInfo err)), w')"
    using rs g by (simp add: Download_def Let_def)
  have "w' = snd (getModelInfo e modelRepo (if revision = [] then ''main'' else revision) w)"
    using g by simp
  then show ?thesis
    using D getModelInfo_fs [of e modelRepo "if revision = [] then ''main'' else revision" w]
    by simp
qed

theorem Download_resolution_fails_witness:
  "compilePatterns env_offline (ignorePatterns d0) \<noteq> Panics \<and>
   fst (getModelInfo env_offline ''o/m'' ''main'' world0) = Inl ErrorMakingAPIRequest \<and>
   fst (Download env_offline d0 [] ''o/m'' ''main'' world0) =
     Returns (Inl (CouldNotGetModelInfo ErrorMakingAPIRequest)) \<and>
   fs (snd (Download env_offline d0 [] ''o/m'' ''main'' world0)) = [(''/'', Dir), (''/t'', Dir)]"
  using Download_resolution_fails [of env_offline d0 "''o/m''" "''main''" world0 ErrorMakingAPIRequest "[]"]
  by (simp add: getModelInfo_def host_fields env_offline_def client_Do_def d0_def NewDownloader_def
        SetCustomPath_def world0_def)


section \<open>Ignored entries\<close>

lemma shouldDownload_iff:
  "shouldDownload e patterns rid = (\<not> (\<exists>pattern \<in> set patterns. regexp_MatchString e pattern rid))"
  by (induction patterns) auto

text \<open>
  C6: an entry whose path matches one of the compiled patterns gets no goroutine: the
  goroutines launched are those of the listing without the entry, and so the fan-out
  ends with the same errors and the same host as if the entry were not listed, under
  every schedule. Nothing is fetched and nothing is linked for it.
\<close>

theorem ignored_entry_not_launched:
  assumes "\<exists>pattern \<in> set ignoreRegexps. regexp_MatchString e pattern (RID file)"
  shows "launch e ignoreRegexps modelRepo revision storageFolder snapshotDir (before @ file # after) =
           launch e ignoreRegexps modelRepo revision storageFolder snapshotDir (before @ after) \<and>
         run_sched sched
           (launch e ignoreRegexps modelRepo revision storageFolder snapshotDir (before @ file # after))
           errorChan w =
         run_sched sched
           (launch e ignoreRegexps modelRepo revision storageFolder snapshotDir (before @ after))
           errorChan w"
  using assms by (simp add: launch_def shouldDownload_iff)

theorem ignored_entry_not_launched_witness:
  "(\<exists>pattern \<in> set (ignorePatterns NewDownloader).
      regexp_MatchString env0 pattern (RID (to_sibling (tree_entry ''g.md'' ''k'')))) \<and>
   launch env0 (ignorePatterns NewDownloader) ''o/m'' ''main'' ''/r'' ''/r/snapshots/c''
     ([to_sibling (tree_entry ''f'' ''h'')] @ to_sibling (tree_entry ''g.md'' ''k'') # []) =
   launch env0 (ignorePatterns NewDownloader) ''o/m'' ''main'' ''/r'' ''/r/snapshots/c''
     ([to_sibling (tree_entry ''f'' ''h'')] @ [])"
  using ignored_entry_not_launched [of "ignorePatterns NewDownloader" env0
      "to_sibling (tree_entry ''g.md'' ''k'')" "''o/m''" "''main''" "''/r''" "''/r/snapshots/c''"
      "[to_sibling (tree_entry ''f'' ''h'')]" "[]" "[]" "[]" world0]
  by (simp add: NewDownloader_def env0_def host_fields to_sibling_def tree_entry_def)


section \<open>The revision pointer\<close>


lemma follow_not_link:
  "follow t n p = Some q \<Longrightarrow> map_of t q \<noteq> Some (Link target)"
  by (induction n arbitrary: p) (auto split: option.splits node.splits)






end
